theory Spec2Isabelle
  imports Complex_Main "HOL-Library.Sublist" "HOL-Library.Multiset"
begin

section \<open>The order store\<close>

text \<open>
  The server keeps two SQLite tables, \<open>orders\<close> and \<open>order_items\<close>. A row is a record
  with one field per column; a table is the list of its rows in rowid order. Both tables
  have an \<open>INTEGER PRIMARY KEY AUTOINCREMENT\<close> id, so the store also carries the two
  counters of \<open>sqlite_sequence\<close>: an inserted row gets an id one above the largest id the
  table has ever held, and goes to the end of the list.

  A JavaScript number and the value of a \<open>REAL\<close> column are doubles; the model
  takes them as the \<open>real\<close> numbers they stand for. Binding a number to a statement
  and reading a column back keep the double, so storing is exact; where the code
  computes with doubles or prints them as text, the rounding is a parameter of the model
  (\<open>json_real\<close> below, \<open>fl\<close> in the AI proxy). \<open>INTEGER\<close> columns are
  \<open>int\<close>, \<open>TEXT\<close> columns \<open>string\<close>. The column
  \<open>timestamp\<close> holds \<open>CURRENT_TIMESTAMP\<close>, a text of the form YYYY-MM-DD HH:MM:SS
  whose text order is the order of time; it is modelled as the number of that second.
\<close>

record order_row =
  o_id :: int
  o_customerName :: string
  o_totalPrice :: real
  o_totalCarbonSaved :: real
  o_timestamp :: int

record item_row =
  i_id :: int
  i_orderId :: int
  i_itemName :: string
  i_unitPrice :: real
  i_quantity :: int
  i_carbonSaved :: real

record store =
  orders :: "order_row list"
  order_items :: "item_row list"
  orders_seq :: int
  order_items_seq :: int

text \<open>The database file right after the two \<open>CREATE TABLE IF NOT EXISTS\<close> statements.\<close>

definition empty_store :: store where
  "empty_store = \<lparr>orders = [], order_items = [], orders_seq = 0, order_items_seq = 0\<rparr>"

subsection \<open>Request bodies\<close>

text \<open>
  \<open>req.body\<close> of POST and PUT: \<open>{customerName, items, totalPrice, totalCarbonSaved}\<close>,
  each item \<open>{itemName, unitPrice, quantity, carbonSaved}\<close>.
\<close>

record item_payload =
  itemName :: string
  unitPrice :: real
  quantity :: int
  carbonSaved :: real

record order_payload =
  customerName :: string
  items :: "item_payload list"
  totalPrice :: real
  totalCarbonSaved :: real

subsection \<open>Responses\<close>

text \<open>
  What the two SELECT statements return for one order: the columns of \<open>o.*\<close> and the
  parsed \<open>items\<close> array. Every member of a \<open>json_object\<close> can be \<open>null\<close>.
\<close>

record item_json =
  j_id :: "int option"
  j_itemName :: "string option"
  j_unitPrice :: "real option"
  j_quantity :: "int option"
  j_carbonSaved :: "real option"

record order_json =
  r_id :: int
  r_customerName :: string
  r_totalPrice :: real
  r_totalCarbonSaved :: real
  r_timestamp :: int
  r_items :: "item_json list"

text \<open>
  The \<open>data\<close> member of a success body: the array of GET /api/orders, the object of POST
  (generated id, echoed body, ISO time of the response), the row of GET /api/orders/:id
  (\<open>None\<close> when \<open>db.get\<close> found no row and \<open>data\<close> is \<open>undefined\<close>).
\<close>

datatype data =
  Order_list "order_json list"
| Order_created int order_payload string
| Order_row "order_json option"

text \<open>
  The JSON bodies the server sends: \<open>{error}\<close>, \<open>{message, data}\<close>,
  \<open>{message, changes}\<close>, \<open>{response}\<close> and \<open>{error, response}\<close>.
  A response is the HTTP status with the body; \<open>res.json\<close> alone sends status 200.
  An order handler can also end without any response (\<open>None\<close>), when the process
  exits first.
\<close>

datatype body =
  Error_body string
| Message_data string data
| Message_changes string nat
| Response_text string
| Error_response string string

type_synonym response = "nat \<times> body"

type_synonym outcome = "response option"

subsection \<open>The storage layer's failures, the clock and the printing of numbers\<close>

text \<open>
  Whether SQLite accepts a statement is not decided by the handlers, so it is an input of
  the model. \<open>stmt_errors\<close> lists, for the statements of one request whose callback looks
  at \<open>err\<close>, in the order they are issued, the error message of a failing one (\<open>None\<close>:
  it succeeds; past the end of the list every statement succeeds). The last such step of
  POST and PUT is \<open>stmt.finalize\<close>. A rejected bound value (a \<open>null\<close> in a
  \<open>NOT NULL\<close> column) is one of these failures. \<open>item_rejected\<close> says the same for the
  \<open>stmt.run\<close> of each item in turn (\<open>True\<close>: SQLite rejects it). A failing
  statement changes nothing in the store.
  \<open>db_now\<close> is the second \<open>CURRENT_TIMESTAMP\<close> reads, \<open>js_now\<close> the text of
  \<open>new Date().toISOString()\<close>.

  \<open>json_real\<close> is what becomes of the number in a \<open>REAL\<close> column on its way through
  \<open>json_object\<close> and \<open>JSON.parse\<close>: SQLite prints it into the JSON text with 15
  significant digits, and \<open>JSON.parse\<close> reads the double nearest to that text. The
  function belongs to SQLite and the JavaScript engine; nothing is assumed of it.
\<close>

record env =
  stmt_errors :: "string option list"
  item_rejected :: "bool list"
  db_now :: int
  js_now :: string
  json_real :: "real \<Rightarrow> real"

definition stmt_error :: "env \<Rightarrow> nat \<Rightarrow> string option" where
  "stmt_error e k = (if k < length (stmt_errors e) then stmt_errors e ! k else None)"

definition rejected :: "env \<Rightarrow> nat \<Rightarrow> bool" where
  "rejected e k = (if k < length (item_rejected e) then item_rejected e ! k else False)"

section \<open>The SQL statements\<close>

text \<open>
  \<open>INSERT INTO orders (customerName, totalPrice, totalCarbonSaved) VALUES (?, ?, ?)\<close>:
  the new id (\<open>this.lastID\<close>) and the store after it.
\<close>

definition next_rowid :: "int \<Rightarrow> int list \<Rightarrow> int" where
  "next_rowid seq ids = fold max ids seq + 1"

definition insert_order :: "string \<Rightarrow> real \<Rightarrow> real \<Rightarrow> int \<Rightarrow> store \<Rightarrow> int \<times> store" where
  "insert_order name price carbon now s =
     (let lastID = next_rowid (orders_seq s) (map o_id (orders s))
      in (lastID,
          s\<lparr>orders := orders s @
                [\<lparr>o_id = lastID, o_customerName = name, o_totalPrice = price,
                  o_totalCarbonSaved = carbon, o_timestamp = now\<rparr>],
            orders_seq := lastID\<rparr>))"

text \<open>
  \<open>INSERT INTO order_items (orderId, itemName, unitPrice, quantity, carbonSaved)
  VALUES (?, ?, ?, ?, ?)\<close>, run once. The schema declares
  \<open>FOREIGN KEY (orderId) REFERENCES orders (id)\<close>, and no handler turns the enforcement
  of foreign keys on, so SQLite stores the row whether or not the order exists.
\<close>

definition insert_item :: "int \<Rightarrow> item_payload \<Rightarrow> store \<Rightarrow> store" where
  "insert_item orderId item s =
     (let lastID = next_rowid (order_items_seq s) (map i_id (order_items s))
      in s\<lparr>order_items := order_items s @
               [\<lparr>i_id = lastID, i_orderId = orderId, i_itemName = itemName item,
                 i_unitPrice = unitPrice item, i_quantity = quantity item,
                 i_carbonSaved = carbonSaved item\<rparr>],
           order_items_seq := lastID\<rparr>)"

text \<open>
  \<open>items.forEach(item => stmt.run([...]))\<close>: the items in order, \<open>k\<close> counting the
  runs of the prepared statement. \<open>stmt.run\<close> is called without a callback here, so
  when SQLite rejects an item the statement object emits an \<open>error\<close> event that nothing
  listens to: the exception is uncaught and the process exits, before the later items
  are run and before any response is sent. \<open>Inl\<close> is that exit, with the store the
  process leaves behind; \<open>Inr\<close> is the store after all items are in.
\<close>

fun insert_items :: "env \<Rightarrow> nat \<Rightarrow> int \<Rightarrow> item_payload list \<Rightarrow> store \<Rightarrow> store + store" where
  "insert_items e k orderId [] s = Inr s"
| "insert_items e k orderId (item # rest) s =
     (if rejected e k then Inl s
      else insert_items e (Suc k) orderId rest (insert_item orderId item s))"

text \<open>\<open>UPDATE orders SET customerName = ?, totalPrice = ?, totalCarbonSaved = ? WHERE id = ?\<close>:
  the number of rows changed (\<open>this.changes\<close>) and the store after it.\<close>

definition update_order_row :: "string \<Rightarrow> real \<Rightarrow> real \<Rightarrow> int \<Rightarrow> store \<Rightarrow> nat \<times> store" where
  "update_order_row name price carbon oid s =
     (length (filter (\<lambda>r. o_id r = oid) (orders s)),
      s\<lparr>orders :=
          map (\<lambda>r. if o_id r = oid
                    then r\<lparr>o_customerName := name, o_totalPrice := price,
                           o_totalCarbonSaved := carbon\<rparr>
                    else r)
              (orders s)\<rparr>)"

text \<open>\<open>DELETE FROM order_items WHERE orderId = ?\<close>\<close>

definition delete_items :: "int \<Rightarrow> store \<Rightarrow> store" where
  "delete_items oid s = s\<lparr>order_items := filter (\<lambda>i. i_orderId i \<noteq> oid) (order_items s)\<rparr>"

text \<open>\<open>DELETE FROM orders WHERE id = ?\<close>: the number of rows deleted and the store.\<close>

definition delete_order_row :: "int \<Rightarrow> store \<Rightarrow> nat \<times> store" where
  "delete_order_row oid s =
     (length (filter (\<lambda>r. o_id r = oid) (orders s)),
      s\<lparr>orders := filter (\<lambda>r. o_id r \<noteq> oid) (orders s)\<rparr>)"

text \<open>
  The SELECT of both GET handlers joins each order to its items with
  \<open>LEFT JOIN order_items oi ON o.id = oi.orderId\<close>: one joined row per item of the
  order, and for an order without items one row whose \<open>oi\<close> columns are all NULL.
\<close>

definition left_join :: "order_row \<Rightarrow> item_row list \<Rightarrow> item_row option list" where
  "left_join r is =
     (let matching = filter (\<lambda>i. i_orderId i = o_id r) is
      in if matching = [] then [None] else map Some matching)"

text \<open>
  \<open>json_object('id', oi.id, 'itemName', oi.itemName, ...)\<close> of one joined row, as
  \<open>JSON.parse\<close> reads it back: the two \<open>REAL\<close> columns pass through the JSON text.
\<close>

definition json_object :: "env \<Rightarrow> item_row option \<Rightarrow> item_json" where
  "json_object e oi =
     \<lparr>j_id = map_option i_id oi, j_itemName = map_option i_itemName oi,
      j_unitPrice = map_option (\<lambda>i. json_real e (i_unitPrice i)) oi,
      j_quantity = map_option i_quantity oi,
      j_carbonSaved = map_option (\<lambda>i. json_real e (i_carbonSaved i)) oi\<rparr>"

text \<open>
  One group of \<open>GROUP BY o.id\<close>: the order's columns and
  \<open>json_group_array(json_object(...))\<close> over its joined rows, after \<open>JSON.parse\<close>.
\<close>

definition order_with_items :: "env \<Rightarrow> store \<Rightarrow> order_row \<Rightarrow> order_json" where
  "order_with_items e s r =
     \<lparr>r_id = o_id r, r_customerName = o_customerName r, r_totalPrice = o_totalPrice r,
      r_totalCarbonSaved = o_totalCarbonSaved r, r_timestamp = o_timestamp r,
      r_items = map (json_object e) (left_join r (order_items s))\<rparr>"

text \<open>
  \<open>db.all\<close> of GET /api/orders: the groups in table order, then
  \<open>ORDER BY o.timestamp DESC\<close>. SQL leaves the order of rows with equal timestamps
  open; the model keeps them in table order (a stable sort).
\<close>

definition select_orders :: "env \<Rightarrow> store \<Rightarrow> order_json list" where
  "select_orders e s =
     sort_key (\<lambda>r. - r_timestamp r) (map (order_with_items e s) (orders s))"

text \<open>\<open>db.get\<close> of GET /api/orders/:id: the first row of \<open>WHERE o.id = ?\<close>, if any.\<close>

definition select_order :: "env \<Rightarrow> int \<Rightarrow> store \<Rightarrow> order_json option" where
  "select_order e oid s =
     (case filter (\<lambda>r. o_id r = oid) (orders s) of
        [] \<Rightarrow> None
      | r # _ \<Rightarrow> Some (order_with_items e s r))"

section \<open>The order handlers\<close>

text \<open>
  Each handler takes the environment of the request and the store, and returns the
  response, if it sends one, with the store it leaves. The route parameter \<open>:id\<close> is the decimal text of
  an integer; SQLite converts it to that integer when it compares it with, or stores it
  in, a column of INTEGER affinity, so the model takes the integer.
\<close>

text \<open>\<open>app.get('/api/orders')\<close>\<close>

definition list_orders :: "env \<Rightarrow> store \<Rightarrow> outcome \<times> store" where
  "list_orders e s =
     (case stmt_error e 0 of
        Some message \<Rightarrow> (Some (500, Error_body message), s)
      | None \<Rightarrow> (Some (200, Message_data ''success'' (Order_list (select_orders e s))), s))"

text \<open>\<open>app.post('/api/orders')\<close>\<close>

definition create_order :: "env \<Rightarrow> order_payload \<Rightarrow> store \<Rightarrow> outcome \<times> store" where
  "create_order e p s =
     (case stmt_error e 0 of
        Some message \<Rightarrow> (Some (400, Error_body message), s)
      | None \<Rightarrow>
          (case insert_order (customerName p) (totalPrice p) (totalCarbonSaved p) (db_now e) s of
             (orderId, s1) \<Rightarrow>
               (case insert_items e 0 orderId (items p) s1 of
                  Inl s2 \<Rightarrow> (None, s2)
                | Inr s2 \<Rightarrow>
                    (case stmt_error e 1 of
                       Some message \<Rightarrow> (Some (400, Error_body message), s2)
                     | None \<Rightarrow>
                         (Some (200, Message_data ''success''
                                  (Order_created orderId p (js_now e))),
                          s2)))))"

text \<open>\<open>app.get('/api/orders/:id')\<close>\<close>

definition read_order :: "env \<Rightarrow> int \<Rightarrow> store \<Rightarrow> outcome \<times> store" where
  "read_order e oid s =
     (case stmt_error e 0 of
        Some message \<Rightarrow> (Some (400, Error_body message), s)
      | None \<Rightarrow> (Some (200, Message_data ''success'' (Order_row (select_order e oid s))), s))"

text \<open>\<open>app.put('/api/orders/:id')\<close>. The \<open>this\<close> of the innermost callback is
  the one of the UPDATE's callback (the two inner callbacks are arrow functions), so
  \<open>this.changes\<close> is the UPDATE's count.\<close>

definition update_order :: "env \<Rightarrow> int \<Rightarrow> order_payload \<Rightarrow> store \<Rightarrow> outcome \<times> store" where
  "update_order e oid p s =
     (case stmt_error e 0 of
        Some message \<Rightarrow> (Some (400, Error_body message), s)
      | None \<Rightarrow>
          (case update_order_row (customerName p) (totalPrice p) (totalCarbonSaved p) oid s of
             (changes, s1) \<Rightarrow>
               (case stmt_error e 1 of
                  Some message \<Rightarrow> (Some (400, Error_body message), s1)
                | None \<Rightarrow>
                    (case insert_items e 0 oid (items p) (delete_items oid s1) of
                       Inl s3 \<Rightarrow> (None, s3)
                     | Inr s3 \<Rightarrow>
                         (case stmt_error e 2 of
                            Some message \<Rightarrow> (Some (400, Error_body message), s3)
                          | None \<Rightarrow>
                              (Some (200, Message_changes ''success'' changes), s3))))))"

text \<open>\<open>app.delete('/api/orders/:id')\<close>\<close>

definition delete_order :: "env \<Rightarrow> int \<Rightarrow> store \<Rightarrow> outcome \<times> store" where
  "delete_order e oid s =
     (case stmt_error e 0 of
        Some message \<Rightarrow> (Some (400, Error_body message), s)
      | None \<Rightarrow>
          (let s1 = delete_items oid s
           in case stmt_error e 1 of
                Some message \<Rightarrow> (Some (400, Error_body message), s1)
              | None \<Rightarrow>
                  (case delete_order_row oid s1 of
                     (changes, s2) \<Rightarrow>
                       (Some (200, Message_changes ''deleted'' changes), s2))))"

text \<open>The five operations of the order routes, and the route table.\<close>

datatype request =
  List_orders
| Create_order order_payload
| Read_order int
| Update_order int order_payload
| Delete_order int

fun handle :: "env \<Rightarrow> request \<Rightarrow> store \<Rightarrow> outcome \<times> store" where
  "handle e List_orders s = list_orders e s"
| "handle e (Create_order p) s = create_order e p s"
| "handle e (Read_order oid) s = read_order e oid s"
| "handle e (Update_order oid p) s = update_order e oid p s"
| "handle e (Delete_order oid) s = delete_order e oid s"

text \<open>The number of statements of a request whose callback looks at \<open>err\<close>.\<close>

fun checked_steps :: "request \<Rightarrow> nat" where
  "checked_steps List_orders = 1"
| "checked_steps (Create_order p) = 2"
| "checked_steps (Read_order oid) = 1"
| "checked_steps (Update_order oid p) = 3"
| "checked_steps (Delete_order oid) = 2"

text \<open>
  The items whose \<open>stmt.run\<close> a request issues before its \<open>k\<close>-th such statement:
  all of them before the \<open>stmt.finalize\<close> of POST and PUT, none before any other.
\<close>

fun items_before :: "request \<Rightarrow> nat \<Rightarrow> item_payload list" where
  "items_before (Create_order p) k = (if 1 \<le> k then items p else [])"
| "items_before (Update_order oid p) k = (if 2 \<le> k then items p else [])"
| "items_before r k = []"

text \<open>
  The invariant of the schema's foreign key: every row of \<open>order_items\<close> has the id of
  a row of \<open>orders\<close> in its \<open>orderId\<close>.
\<close>

definition referential_integrity :: "store \<Rightarrow> bool" where
  "referential_integrity s =
     list_all (\<lambda>i. list_ex (\<lambda>r. o_id r = i_orderId i) (orders s)) (order_items s)"

text \<open>The fields of a stored item that the client supplied.\<close>

definition supplied_fields :: "item_row \<Rightarrow> item_payload" where
  "supplied_fields i =
     \<lparr>itemName = i_itemName i, unitPrice = i_unitPrice i, quantity = i_quantity i,
      carbonSaved = i_carbonSaved i\<rparr>"

subsection \<open>Sample requests\<close>

text \<open>
  The request body of the example of the specification (Alice orders two mugs), a body
  with an empty \<open>items\<close> array, and a request during which the storage layer reports
  no failure, at second \<open>now\<close>. The numbers of the sample bodies have at most three
  significant digits, which \<open>json_object\<close> prints in full, so the sample takes
  \<open>json_real\<close> to return its argument.
\<close>

definition mug :: item_payload where
  "mug = \<lparr>itemName = ''Mug'', unitPrice = 10, quantity = 2, carbonSaved = 3 / 2\<rparr>"

definition alice_order :: order_payload where
  "alice_order =
     \<lparr>customerName = ''Alice'', items = [mug], totalPrice = 20, totalCarbonSaved = 3 / 2\<rparr>"

definition empty_order :: order_payload where
  "empty_order =
     \<lparr>customerName = ''Bob'', items = [], totalPrice = 0, totalCarbonSaved = 0\<rparr>"

definition calm :: "int \<Rightarrow> env" where
  "calm now =
     \<lparr>stmt_errors = [], item_rejected = [], db_now = now,
      js_now = ''2026-01-01T00:00:00.000Z'', json_real = (\<lambda>x. x)\<rparr>"

text \<open>
  A sample rounding for the double arithmetic: to the nearest multiple of \<open>2^-50\<close>,
  the spacing of the doubles between 4 and 8.
\<close>

definition grid_round :: "real \<Rightarrow> real" where
  "grid_round x = of_int \<lfloor>x * 2 ^ 50 + 1 / 2\<rfloor> / 2 ^ 50"

section \<open>The AI proxy\<close>

text \<open>\<open>String.prototype.includes\<close>: the needle occurs in the text as a contiguous run.\<close>

fun str_includes :: "string \<Rightarrow> string \<Rightarrow> bool" where
  "str_includes [] needle = (needle = [])"
| "str_includes (c # cs) needle = (prefix needle (c # cs) \<or> str_includes cs needle)"

text \<open>
  \<open>Number.prototype.toFixed(f)\<close> for a number below \<open>10^21\<close> in size: with \<open>n\<close> the
  integer nearest to \<open>x * 10^f\<close> (the larger one of two), the decimal digits of \<open>n\<close>,
  padded with zeros to \<open>f + 1\<close> digits, with a point before the last \<open>f\<close> of them.
\<close>

definition digit_char :: "nat \<Rightarrow> char" where
  "digit_char d = ''0123456789'' ! d"

fun digits :: "nat \<Rightarrow> string" where
  "digits n = (if n < 10 then [digit_char n] else digits (n div 10) @ [digit_char (n mod 10)])"

definition toFixed :: "real \<Rightarrow> nat \<Rightarrow> string" where
  "toFixed x f =
     (let sign = (if x < 0 then ''-'' else '''');
          n = nat \<lfloor>\<bar>x\<bar> * 10 ^ f + 1 / 2\<rfloor>;
          m = digits n;
          m = (if length m \<le> f then replicate (f + 1 - length m) CHR ''0'' @ m else m);
          k = length m
      in if f = 0 then sign @ m
         else sign @ take (k - f) m @ ''.'' @ drop (k - f) m)"

text \<open>The two texts the handler sends when it has no answer of the provider's.\<close>

definition advice_text :: string where
  "advice_text = ''1. Consider choosing more sustainable alternatives. 2. Reduce consumption where possible. 3. Look for locally produced options to reduce transportation emissions.''"

definition apology_text :: string where
  "apology_text = ''I'' @ [CHR 0x27] @ ''m unable to provide a response at this time. Please try again later.''"

text \<open>
  \<open>process.env.GOOGLE_API_KEY\<close> is unset (\<open>None\<close>), empty, or the placeholder.
\<close>

definition no_valid_key :: "string option \<Rightarrow> bool" where
  "no_valid_key key =
     (case key of
        None \<Rightarrow> True
      | Some k \<Rightarrow> k = [] \<or> k = ''your-fallback-key-here'')"

text \<open>
  \<open>generateResponse\<close> returns the provider's text or rethrows its error; the provider
  is a parameter, \<open>Inl\<close> the message of the error it throws.
\<close>

definition generateResponse :: "(string \<Rightarrow> string + string) \<Rightarrow> string \<Rightarrow> string + string" where
  "generateResponse provider prompt = provider prompt"

text \<open>
  \<open>Math.random() * 5 + 0.5\<close>. \<open>random\<close> is the double \<open>Math.random()\<close> returns,
  from 0 up to but not including 1. The product and the sum are double operations: each
  is the exact result rounded to a double by \<open>fl\<close>, the rounding of the JavaScript
  engine's arithmetic, which is a parameter of the model. The constants 5 and 0.5 are
  doubles. \<open>toFixed\<close> then works on the exact value of the double it is given.
\<close>

definition fallbackEstimate :: "(real \<Rightarrow> real) \<Rightarrow> real \<Rightarrow> real" where
  "fallbackEstimate fl random = fl (fl (random * 5) + 1 / 2)"

text \<open>\<open>app.post('/api/prompts')\<close>, for a prompt that is a string.\<close>

definition prompts :: "(real \<Rightarrow> real) \<Rightarrow> string option \<Rightarrow> (string \<Rightarrow> string + string) \<Rightarrow> real \<Rightarrow> string \<Rightarrow> response" where
  "prompts fl key provider random prompt =
     (if no_valid_key key then
        (if str_includes prompt ''Estimate the carbon footprint''
         then (200, Response_text (toFixed (fallbackEstimate fl random) 2))
         else if str_includes prompt ''suggestions to reduce carbon footprint''
         then (200, Response_text advice_text)
         else (200, Response_text apology_text))
      else
        (case generateResponse provider prompt of
           Inr response \<Rightarrow> (200, Response_text response)
         | Inl message \<Rightarrow>
             (if str_includes prompt ''Estimate the carbon footprint''
              then (200, Response_text (toFixed (fallbackEstimate fl random) 2))
              else if str_includes prompt ''suggestions to reduce carbon footprint''
              then (200, Response_text advice_text)
              else (500, Error_response message apology_text))))"

text \<open>
  Reading a plain decimal numeral back, as \<open>parseFloat\<close> does on digits, a point and
  digits: the measure of what a client gets from the estimate's text.
\<close>

definition digit_value :: "char \<Rightarrow> nat option" where
  "digit_value c =
     (let code = (of_char c :: nat)
      in if 48 \<le> code \<and> code \<le> 57 then Some (code - 48) else None)"

fun digits_value :: "nat \<Rightarrow> string \<Rightarrow> nat option" where
  "digits_value acc [] = Some acc"
| "digits_value acc (c # cs) =
     (case digit_value c of
        None \<Rightarrow> None
      | Some d \<Rightarrow> digits_value (acc * 10 + d) cs)"


section \<open>Properties of the AI proxy\<close>

subsection \<open>Decimal digits and \<open>toFixed\<close>\<close>

declare digits.simps [simp del]







lemma digits_value_bound:
  "digits_value acc xs = Some v \<Longrightarrow> \<exists>w. v = acc * 10 ^ length xs + w \<and> w < 10 ^ length xs"
proof (induction xs arbitrary: acc v)
  case Nil
  then show ?case by simp
next
  case (Cons c cs)
  from Cons.prems obtain d where d: "digit_value c = Some d"
    and rest: "digits_value (acc * 10 + d) cs = Some v"
    by (auto split: option.splits)
  from d have "d < 10"
    by (auto simp: digit_value_def Let_def split: if_splits)
  define P :: nat where "P = 10 ^ length cs"
  have le: "d * P \<le> 9 * P"
    using \<open>d < 10\<close> by simp
  from Cons.IH[OF rest] obtain w where
    v: "v = (acc * 10 + d) * 10 ^ length cs + w" and w: "w < 10 ^ length cs" by blast
  have "v = acc * 10 ^ length (c # cs) + (d * 10 ^ length cs + w)"
    using v by (simp add: algebra_simps)
  moreover have "d * P + w < 10 * P"
    using le w[folded P_def] by linarith
  then have "d * 10 ^ length cs + w < 10 ^ length (c # cs)"
    by (simp add: P_def)
  ultimately show ?case by blast
qed





lemma digits_value_less: "digits_value 0 xs = Some w \<Longrightarrow> w < 10 ^ length xs"
  using digits_value_bound[of 0 xs w] by simp




lemma digit_char_set: "d < 10 \<Longrightarrow> digit_char d \<in> set ''0123456789''"
  unfolding digit_char_def by (rule nth_mem) simp

lemma digits_set: "set (digits n) \<subseteq> set ''0123456789''"
proof (induction n rule: digits.induct)
  case (1 n)
  show ?case
  proof (cases "n < 10")
    case True
    then show ?thesis
      using digit_char_set[of n] by (subst digits.simps) simp
  next
    case False
    have "digits n = digits (n div 10) @ [digit_char (n mod 10)]"
      using False by (subst digits.simps) simp
    then show ?thesis
      using 1[OF False] digit_char_set[of "n mod 10"] by simp
  qed
qed

lemma toFixed_set: "set (toFixed x f) \<subseteq> set ''0123456789-.''"
proof -
  define D where "D = set ''0123456789''"
  define A where "A = set ''0123456789-.''"
  define n where "n = nat \<lfloor>\<bar>x\<bar> * 10 ^ f + 1 / 2\<rfloor>"
  define m where "m = (if length (digits n) \<le> f
    then replicate (f + 1 - length (digits n)) CHR ''0'' @ digits n else digits n)"
  define sign where "sign = (if x < 0 then ''-'' else '''')"
  have DA: "D \<subseteq> A"
    by (simp add: D_def A_def)
  have zero: "CHR ''0'' \<in> D"
    by (simp add: D_def)
  have dig: "set (digits n) \<subseteq> D"
    unfolding D_def by (rule digits_set)
  have rep: "set (replicate j CHR ''0'') \<subseteq> D" for j
    using zero by (cases "j = 0") simp_all
  have "set m \<subseteq> D"
  proof (cases "length (digits n) \<le> f")
    case True
    then have "m = replicate (f + 1 - length (digits n)) CHR ''0'' @ digits n"
      by (simp add: m_def)
    then show ?thesis
      using rep[of "f + 1 - length (digits n)"] dig by (simp only: set_append Un_subset_iff)
  next
    case False
    then show ?thesis
      using dig by (simp add: m_def)
  qed
  then have m: "set m \<subseteq> A"
    using DA by (rule subset_trans)
  have sign: "set sign \<subseteq> A"
    by (cases "x < 0") (simp_all add: sign_def A_def)
  have point: "set ''.'' \<subseteq> A"
    by (simp add: A_def)
  have tk: "set (take j m) \<subseteq> A" and dr: "set (drop j m) \<subseteq> A" for j
    using m set_take_subset[of j m] set_drop_subset[of j m] by blast+
  have eq: "toFixed x f = (if f = 0 then sign @ m
      else sign @ take (length m - f) m @ ''.'' @ drop (length m - f) m)"
    unfolding toFixed_def Let_def n_def[symmetric] m_def[symmetric] sign_def[symmetric] ..
  have "set (toFixed x f) \<subseteq> A"
  proof (cases "f = 0")
    case True
    then show ?thesis
      unfolding eq using sign m by simp
  next
    case False
    then show ?thesis
      unfolding eq using sign tk[of "length m - f"] point dr[of "length m - f"]
      by (simp only: if_False set_append Un_subset_iff)
  qed
  then show ?thesis
    unfolding A_def .
qed

lemma toFixed_not_advice: "toFixed x f \<noteq> advice_text"
proof
  assume eq: "toFixed x f = advice_text"
  have "CHR '' '' \<in> set advice_text"
    by (simp add: advice_text_def)
  then have "CHR '' '' \<in> set (toFixed x f)"
    by (simp only: eq)
  with toFixed_set have "CHR '' '' \<in> set ''0123456789-.''"
    by (rule subsetD)
  then show False by simp
qed




subsection \<open>The estimate\<close>




lemma estimate_at_half: "toFixed (fallbackEstimate grid_round (1 / 2)) 2 = ''3.00''"
  by code_simp


text \<open>
  Claim C8. When a key is configured and the provider call fails, the handler classifies
  the prompt as it does without a key: the status is 500 exactly when the prompt contains
  neither ``Estimate the carbon footprint'' nor ``suggestions to reduce carbon
  footprint'', and then the body carries the error message beside the apology text; when
  the prompt contains one of the two, the response is the one sent without a key, with
  status 200.
\<close>

theorem provider_failure_status:
  assumes "\<not> no_valid_key key" and "provider prompt = Inl message"
  shows "(fst (prompts fl key provider random prompt) = 500 \<longleftrightarrow>
            \<not> str_includes prompt ''Estimate the carbon footprint'' \<and>
            \<not> str_includes prompt ''suggestions to reduce carbon footprint'')
       \<and> (str_includes prompt ''Estimate the carbon footprint'' \<or>
            str_includes prompt ''suggestions to reduce carbon footprint'' \<longrightarrow>
            fst (prompts fl key provider random prompt) = 200 \<and>
            prompts fl key provider random prompt = prompts fl None provider random prompt)
       \<and> (\<not> str_includes prompt ''Estimate the carbon footprint'' \<and>
            \<not> str_includes prompt ''suggestions to reduce carbon footprint'' \<longrightarrow>
            prompts fl key provider random prompt = (500, Error_response message apology_text) \<and>
            prompts fl None provider random prompt = (200, Response_text apology_text))"
  using assms by (simp add: prompts_def generateResponse_def no_valid_key_def)

theorem provider_failure_status_witness:
  "\<not> no_valid_key (Some ''secret'')
   \<and> prompts grid_round (Some ''secret'') (\<lambda>p. Inl ''quota exceeded'') (1 / 2)
        ''How green is tea?''
       = (500, Error_response ''quota exceeded'' apology_text)
   \<and> prompts grid_round (Some ''secret'') (\<lambda>p. Inl ''quota exceeded'') (1 / 2)
        ''Give suggestions to reduce carbon footprint''
       = (200, Response_text advice_text)"
  using provider_failure_status[of "Some ''secret''" "\<lambda>p. Inl ''quota exceeded''"
      "''How green is tea?''" "''quota exceeded''" grid_round "1 / 2"]
    provider_failure_status[of "Some ''secret''" "\<lambda>p. Inl ''quota exceeded''"
      "''Give suggestions to reduce carbon footprint''" "''quota exceeded''" grid_round "1 / 2"]
  by (simp add: no_valid_key_def prompts_def)



text \<open>
  Claim C10. The classification is ordered: a prompt containing both phrases gets the
  numeric estimate, without a key and after a failed provider call alike, and that text
  is never the advice text.
\<close>

theorem estimate_before_advice:
  assumes "str_includes prompt ''Estimate the carbon footprint''"
    and "str_includes prompt ''suggestions to reduce carbon footprint''"
    and "no_valid_key key \<or> provider prompt = Inl message"
  shows "prompts fl key provider random prompt
           = (200, Response_text (toFixed (fallbackEstimate fl random) 2))
       \<and> toFixed (fallbackEstimate fl random) 2 \<noteq> advice_text"
  using assms by (auto simp: prompts_def generateResponse_def toFixed_not_advice)

theorem estimate_before_advice_witness:
  "str_includes ''Estimate the carbon footprint and give suggestions to reduce carbon footprint''
      ''Estimate the carbon footprint''
   \<and> str_includes ''Estimate the carbon footprint and give suggestions to reduce carbon footprint''
      ''suggestions to reduce carbon footprint''
   \<and> prompts grid_round None (\<lambda>p. Inr ''unused'') (1 / 2)
        ''Estimate the carbon footprint and give suggestions to reduce carbon footprint''
       = (200, Response_text ''3.00'')
   \<and> prompts grid_round (Some ''secret'') (\<lambda>p. Inl ''quota exceeded'') (1 / 2)
        ''Estimate the carbon footprint and give suggestions to reduce carbon footprint''
       = (200, Response_text ''3.00'')"
  using estimate_before_advice[of
      "''Estimate the carbon footprint and give suggestions to reduce carbon footprint''"
      None "\<lambda>p. Inr ''unused''" "''none''" grid_round "1 / 2"]
    estimate_before_advice[of
      "''Estimate the carbon footprint and give suggestions to reduce carbon footprint''"
      "Some ''secret''" "\<lambda>p. Inl ''quota exceeded''" "''quota exceeded''" grid_round "1 / 2"]
  by (simp add: no_valid_key_def estimate_at_half)

section \<open>Properties of the order handlers\<close>

subsection \<open>The statements\<close>

lemma insert_item_orders: "orders (insert_item orderId item s) = orders s"
  by (simp add: insert_item_def Let_def)

lemma insert_item_order_ids:
  "i_orderId ` set (order_items (insert_item orderId item s))
     = insert orderId (i_orderId ` set (order_items s))"
  by (simp add: insert_item_def Let_def)

text \<open>Whether the items all go in or not, the orders stay and only this order gains items.\<close>

lemma insert_items_result:
  "\<exists>s'. (insert_items e k orderId its s = Inl s' \<or> insert_items e k orderId its s = Inr s')
        \<and> orders s' = orders s
        \<and> i_orderId ` set (order_items s') \<subseteq> insert orderId (i_orderId ` set (order_items s))"
proof (induction its arbitrary: k s)
  case Nil
  show ?case
    by (intro exI[of _ s]) auto
next
  case (Cons item rest)
  show ?case
  proof (cases "rejected e k")
    case True
    then show ?thesis
      by (intro exI[of _ s]) auto
  next
    case False
    define s1 where "s1 = insert_item orderId item s"
    from Cons.IH[of "Suc k" s1] obtain s' where
      res: "insert_items e (Suc k) orderId rest s1 = Inl s'
          \<or> insert_items e (Suc k) orderId rest s1 = Inr s'"
      and ord: "orders s' = orders s1"
      and ids: "i_orderId ` set (order_items s')
          \<subseteq> insert orderId (i_orderId ` set (order_items s1))"
      by blast
    have "insert_items e k orderId (item # rest) s = insert_items e (Suc k) orderId rest s1"
      using False by (simp add: s1_def)
    moreover have "orders s' = orders s"
      using ord by (simp add: s1_def insert_item_orders)
    moreover have "i_orderId ` set (order_items s')
        \<subseteq> insert orderId (i_orderId ` set (order_items s))"
      using ids unfolding s1_def insert_item_order_ids by simp
    ultimately show ?thesis
      using res by (intro exI[of _ s']) simp
  qed
qed

lemma insert_items_accepted:
  assumes "\<forall>j<length its. \<not> rejected e (k + j)"
  shows "\<exists>s' new. insert_items e k orderId its s = Inr s'
           \<and> orders s' = orders s
           \<and> order_items s' = order_items s @ new
           \<and> map i_orderId new = replicate (length its) orderId
           \<and> map supplied_fields new = its"
  using assms
proof (induction its arbitrary: k s)
  case Nil
  show ?case
    by (intro exI[of _ s] exI[of _ "[]"]) simp
next
  case (Cons item rest)
  define row where "row = \<lparr>i_id = next_rowid (order_items_seq s) (map i_id (order_items s)),
    i_orderId = orderId, i_itemName = itemName item, i_unitPrice = unitPrice item,
    i_quantity = quantity item, i_carbonSaved = carbonSaved item\<rparr>"
  define s1 where "s1 = insert_item orderId item s"
  have items1: "order_items s1 = order_items s @ [row]" and orders1: "orders s1 = orders s"
    by (simp_all add: s1_def insert_item_def Let_def row_def)
  have "0 < length (item # rest)"
    by simp
  with Cons.prems have "\<not> rejected e (k + 0)"
    by blast
  then have "\<not> rejected e k"
    by simp
  then have step: "insert_items e k orderId (item # rest) s
      = insert_items e (Suc k) orderId rest s1"
    by (simp add: s1_def)
  have "\<forall>j<length rest. \<not> rejected e (Suc k + j)"
  proof (intro allI impI)
    fix j
    assume "j < length rest"
    then have "Suc j < length (item # rest)"
      by simp
    with Cons.prems have "\<not> rejected e (k + Suc j)"
      by blast
    then show "\<not> rejected e (Suc k + j)"
      by simp
  qed
  from Cons.IH[OF this, of s1] obtain s' new where
    new: "insert_items e (Suc k) orderId rest s1 = Inr s'" "orders s' = orders s1"
      "order_items s' = order_items s1 @ new"
      "map i_orderId new = replicate (length rest) orderId" "map supplied_fields new = rest"
    by blast
  have "insert_items e k orderId (item # rest) s = Inr s'"
    using new(1) step by simp
  moreover have "orders s' = orders s"
    using new(2) orders1 by simp
  moreover have "order_items s' = order_items s @ (row # new)"
    using new(3) items1 by simp
  moreover have "map i_orderId (row # new) = replicate (length (item # rest)) orderId"
    using new(4) by (simp add: row_def)
  moreover have "map supplied_fields (row # new) = item # rest"
    using new(5) by (simp add: row_def supplied_fields_def)
  ultimately show ?case
    by (intro exI[of _ s'] exI[of _ "row # new"] conjI)
qed

lemma fold_max_upper: "a \<le> fold max ids a \<and> (\<forall>x\<in>set ids. x \<le> fold max ids a)"
  for a :: int
proof (induction ids arbitrary: a)
  case Nil
  then show ?case by simp
next
  case (Cons y ys)
  from Cons.IH[of "max y a"] show ?case
    by auto
qed

lemma next_rowid_fresh: "x \<in> set ids \<Longrightarrow> x < next_rowid seq ids"
  using fold_max_upper[of seq ids] by (auto simp: next_rowid_def)


lemma update_order_row_ids:
  "o_id ` set (orders (snd (update_order_row name price carbon oid s))) = o_id ` set (orders s)"
proof -
  have "map o_id (orders (snd (update_order_row name price carbon oid s))) = map o_id (orders s)"
    by (simp add: update_order_row_def)
  then have "set (map o_id (orders (snd (update_order_row name price carbon oid s))))
      = set (map o_id (orders s))"
    by (rule arg_cong)
  then show ?thesis
    by (simp only: set_map)
qed

subsection \<open>The sample requests\<close>

lemma calm_stmt_error: "stmt_error (calm now) k = None"
  by (simp add: stmt_error_def calm_def)

lemma calm_rejected: "\<not> rejected (calm now) k"
  by (simp add: rejected_def calm_def)

lemma calm_now: "db_now (calm now) = now" "js_now (calm now) = ''2026-01-01T00:00:00.000Z''"
  by (simp_all add: calm_def)

lemma alice_created:
  "create_order (calm 100) alice_order empty_store
     = (Some (200, Message_data ''success''
                (Order_created 1 alice_order ''2026-01-01T00:00:00.000Z'')),
        \<lparr>orders = [\<lparr>o_id = 1, o_customerName = ''Alice'', o_totalPrice = 20,
                      o_totalCarbonSaved = 3 / 2, o_timestamp = 100\<rparr>],
          order_items = [\<lparr>i_id = 1, i_orderId = 1, i_itemName = ''Mug'', i_unitPrice = 10,
                           i_quantity = 2, i_carbonSaved = 3 / 2\<rparr>],
          orders_seq = 1, order_items_seq = 1\<rparr>)"
  by (simp add: create_order_def calm_stmt_error calm_rejected insert_order_def insert_item_def
      next_rowid_def empty_store_def alice_order_def mug_def calm_now Let_def)

lemma bob_created:
  "create_order (calm 100) empty_order empty_store
     = (Some (200, Message_data ''success''
                (Order_created 1 empty_order ''2026-01-01T00:00:00.000Z'')),
        \<lparr>orders = [\<lparr>o_id = 1, o_customerName = ''Bob'', o_totalPrice = 0,
                      o_totalCarbonSaved = 0, o_timestamp = 100\<rparr>],
          order_items = [], orders_seq = 1, order_items_seq = 0\<rparr>)"
  by (simp add: create_order_def calm_stmt_error insert_order_def
      next_rowid_def empty_store_def empty_order_def calm_now Let_def)

subsection \<open>Update\<close>



subsection \<open>Reading an id that has no order\<close>

text \<open>
  Claim C7. When no order row has the id and the SELECT does not fail,
  GET /api/orders/:id answers 200 with message ``success'' and no data, and leaves the
  store as it was.
\<close>

theorem read_missing_order:
  assumes "oid \<notin> o_id ` set (orders s)" and "stmt_error e 0 = None"
  shows "read_order e oid s = (Some (200, Message_data ''success'' (Order_row None)), s)"
proof -
  have "filter (\<lambda>r. o_id r = oid) (orders s) = []"
    using assms(1) by (auto simp: filter_empty_conv)
  then show ?thesis
    using assms(2) by (simp add: read_order_def select_order_def)
qed

theorem read_missing_order_witness:
  "2 \<notin> o_id ` set (orders (snd (create_order (calm 100) alice_order empty_store)))
   \<and> stmt_error (calm 200) 0 = None
   \<and> read_order (calm 200) 2 (snd (create_order (calm 100) alice_order empty_store))
       = (Some (200, Message_data ''success'' (Order_row None)),
          snd (create_order (calm 100) alice_order empty_store))"
proof -
  have h: "2 \<notin> o_id ` set (orders (snd (create_order (calm 100) alice_order empty_store)))"
    by (simp add: alice_created)
  show ?thesis
    using h read_missing_order[OF h calm_stmt_error, of 200] by (simp add: calm_stmt_error)
qed

subsection \<open>Storage failures\<close>

text \<open>
  Claim C3, amended. When the first failing statement among those whose callback looks
  at \<open>err\<close> fails with a message, and the items inserted before it were all accepted,
  the response is \<open>{error: message}\<close>, with status 400 for create, read, update and
  delete and with status 500 for list.
\<close>

theorem storage_failure_response:
  assumes "k < checked_steps r" and "stmt_error e k = Some message"
    and "\<forall>j<k. stmt_error e j = None"
    and "\<forall>j<length (items_before r k). \<not> rejected e j"
  shows "fst (handle e r s) = Some (if r = List_orders then 500 else 400, Error_body message)"
proof -
  have k: "k = 0 \<or> k = 1 \<or> k = 2"
    using assms(1) by (cases r) auto
  have e0: "0 < k \<Longrightarrow> stmt_error e 0 = None" and e1: "1 < k \<Longrightarrow> stmt_error e 1 = None"
    using assms(3) by auto
  show ?thesis
  proof (cases r)
    case List_orders
    then show ?thesis
      using assms(1,2) by (simp add: list_orders_def)
  next
    case (Read_order oid)
    then show ?thesis
      using assms(1,2) by (simp add: read_order_def)
  next
    case (Delete_order oid)
    then show ?thesis
      using assms(1,2) k e0 by (auto simp: delete_order_def Let_def split: prod.splits)
  next
    case (Create_order p)
    show ?thesis
    proof (cases "k = 0")
      case True
      then show ?thesis
        using assms(2) Create_order by (simp add: create_order_def)
    next
      case False
      then have k1: "k = 1"
        using assms(1) Create_order by simp
      then have accepted: "\<forall>j<length (items p). \<not> rejected e (0 + j)"
        using assms(4) Create_order by simp
      obtain orderId s1 where ins: "insert_order (customerName p) (totalPrice p)
          (totalCarbonSaved p) (db_now e) s = (orderId, s1)"
        by (cases "insert_order (customerName p) (totalPrice p)
          (totalCarbonSaved p) (db_now e) s")
      from insert_items_accepted[OF accepted, of orderId s1] obtain s2 where
        items: "insert_items e 0 orderId (items p) s1 = Inr s2"
        by blast
      have first: "stmt_error e 0 = None" and second: "stmt_error e 1 = Some message"
        using e0 assms(2) k1 by simp_all
      show ?thesis
        unfolding Create_order handle.simps create_order_def
        by (simp add: first ins items second del: One_nat_def)
    qed
  next
    case (Update_order oid p)
    show ?thesis
    proof (cases "k = 2")
      case False
      then have "k = 0 \<or> k = 1"
        using k by simp
      then show ?thesis
        using assms(2) e0 Update_order
        by (auto simp: update_order_def split: prod.splits)
    next
      case True
      then have accepted: "\<forall>j<length (items p). \<not> rejected e (0 + j)"
        using assms(4) Update_order by simp
      obtain changes s1 where upd: "update_order_row (customerName p) (totalPrice p)
          (totalCarbonSaved p) oid s = (changes, s1)"
        by (cases "update_order_row (customerName p) (totalPrice p)
          (totalCarbonSaved p) oid s")
      from insert_items_accepted[OF accepted, of oid "delete_items oid s1"] obtain s3 where
        items: "insert_items e 0 oid (items p) (delete_items oid s1) = Inr s3"
        by blast
      have first: "stmt_error e 0 = None" and second: "stmt_error e 1 = None"
        and third: "stmt_error e 2 = Some message"
        using e0 e1 assms(2) True by simp_all
      show ?thesis
        unfolding Update_order handle.simps update_order_def
        by (simp add: first upd second items third del: One_nat_def)
    qed
  qed
qed

theorem storage_failure_response_witness:
  "stmt_error ((calm 200)\<lparr>stmt_errors := [None, None, Some ''database is locked'']\<rparr>) 2
     = Some ''database is locked''
   \<and> \<not> rejected ((calm 200)\<lparr>stmt_errors := [None, None, Some ''database is locked'']\<rparr>) 0
   \<and> fst (handle ((calm 200)\<lparr>stmt_errors := [None, None, Some ''database is locked'']\<rparr>)
       (Update_order 1 alice_order) empty_store)
       = Some (400, Error_body ''database is locked'')"
proof -
  define e where "e = (calm 200)\<lparr>stmt_errors := [None, None, Some ''database is locked'']\<rparr>"
  have h1: "2 < checked_steps (Update_order 1 alice_order)"
    by simp
  have h2: "stmt_error e 2 = Some ''database is locked''"
    by (simp add: e_def stmt_error_def)
  have h3: "\<forall>j<2. stmt_error e j = None"
    by (simp add: e_def stmt_error_def less_Suc_eq numeral_2_eq_2)
  have h4: "\<forall>j<length (items_before (Update_order 1 alice_order) 2). \<not> rejected e j"
    by (simp add: e_def rejected_def calm_def)
  note t = storage_failure_response[OF h1 h2 h3 h4, of empty_store]
  have "\<not> rejected e 0"
    by (simp add: e_def rejected_def calm_def)
  with t h2 show ?thesis
    unfolding e_def by simp
qed

text \<open>
  Claim C3 as stated fails in two places. A failing SELECT of GET /api/orders is answered
  with status 500. And when SQLite rejects an item of POST /api/orders, whose
  \<open>stmt.run\<close> has no callback, the process exits without any response, with the order
  row already stored.
\<close>

theorem storage_failure_not_always_400:
  "fst (handle ((calm 200)\<lparr>stmt_errors := [Some ''disk I/O error'']\<rparr>) List_orders empty_store)
     = Some (500, Error_body ''disk I/O error'')
   \<and> handle ((calm 200)\<lparr>item_rejected := [True]\<rparr>) (Create_order alice_order) empty_store
     = (None,
        \<lparr>orders = [\<lparr>o_id = 1, o_customerName = ''Alice'', o_totalPrice = 20,
                      o_totalCarbonSaved = 3 / 2, o_timestamp = 200\<rparr>],
          order_items = [], orders_seq = 1, order_items_seq = 0\<rparr>)"
  by (simp add: list_orders_def create_order_def stmt_error_def rejected_def calm_def
      insert_order_def next_rowid_def empty_store_def alice_order_def mug_def Let_def)

subsection \<open>The list\<close>









subsection \<open>Referential integrity\<close>

lemma referential_integrity_iff:
  "referential_integrity s \<longleftrightarrow> i_orderId ` set (order_items s) \<subseteq> o_id ` set (orders s)"
proof -
  have "(\<exists>r\<in>set (orders s). o_id r = x) \<longleftrightarrow> x \<in> o_id ` set (orders s)" for x
    by (simp add: image_iff eq_commute[of x])
  then have "referential_integrity s
      \<longleftrightarrow> (\<forall>i\<in>set (order_items s). i_orderId i \<in> o_id ` set (orders s))"
    unfolding referential_integrity_def list_all_iff list_ex_iff by simp
  also have "\<dots> \<longleftrightarrow> i_orderId ` set (order_items s) \<subseteq> o_id ` set (orders s)"
    by (rule image_subset_iff[symmetric])
  finally show ?thesis .
qed

text \<open>
  The invariant is kept by list, create, read and delete whatever the storage layer
  does, and by update when the id has an order row; also when the process exits on a
  rejected item.
\<close>

lemma invariant_preserved:
  assumes inv: "referential_integrity s"
    and known: "\<And>oid p. r = Update_order oid p \<Longrightarrow> oid \<in> o_id ` set (orders s)"
  shows "referential_integrity (snd (handle e r s))"
proof (cases r)
  case List_orders
  then show ?thesis
    using inv by (simp add: list_orders_def split: option.splits)
next
  case (Read_order oid)
  then show ?thesis
    using inv by (simp add: read_order_def split: option.splits)
next
  case (Create_order p)
  define new_id where "new_id = next_rowid (orders_seq s) (map o_id (orders s))"
  define s1 where "s1 = snd (insert_order (customerName p) (totalPrice p) (totalCarbonSaved p)
    (db_now e) s)"
  have ins: "insert_order (customerName p) (totalPrice p) (totalCarbonSaved p) (db_now e) s
      = (new_id, s1)"
    by (simp add: insert_order_def Let_def new_id_def s1_def)
  have ids1: "o_id ` set (orders s1) = insert new_id (o_id ` set (orders s))"
    and items1: "order_items s1 = order_items s"
    by (simp_all add: s1_def insert_order_def Let_def new_id_def)
  from insert_items_result[of e 0 new_id "items p" s1] obtain s2 where
    res: "insert_items e 0 new_id (items p) s1 = Inl s2
        \<or> insert_items e 0 new_id (items p) s1 = Inr s2"
    and ord: "orders s2 = orders s1"
    and ids: "i_orderId ` set (order_items s2)
        \<subseteq> insert new_id (i_orderId ` set (order_items s1))"
    by blast
  have i2: "i_orderId ` set (order_items s2)
      \<subseteq> insert new_id (i_orderId ` set (order_items s))"
    using ids unfolding items1 .
  have o2: "o_id ` set (orders s2) = insert new_id (o_id ` set (orders s))"
    using ord ids1 by simp
  have inv2: "referential_integrity s2"
    using inv i2 unfolding referential_integrity_iff o2 by blast
  have "snd (create_order e p s) = s \<or> snd (create_order e p s) = s2"
    using res by (auto simp: create_order_def ins split: option.splits)
  then show ?thesis
    using inv inv2 Create_order by auto
next
  case (Update_order oid p)
  define changes where "changes = fst (update_order_row (customerName p) (totalPrice p)
    (totalCarbonSaved p) oid s)"
  define s1 where "s1 = snd (update_order_row (customerName p) (totalPrice p)
    (totalCarbonSaved p) oid s)"
  have upd: "update_order_row (customerName p) (totalPrice p) (totalCarbonSaved p) oid s
      = (changes, s1)"
    by (simp add: changes_def s1_def)
  have ids1: "o_id ` set (orders s1) = o_id ` set (orders s)"
    unfolding s1_def by (rule update_order_row_ids)
  have items1: "order_items s1 = order_items s"
    by (simp add: s1_def update_order_row_def)
  have inv1: "referential_integrity s1"
    using inv unfolding referential_integrity_iff ids1 items1 .
  from insert_items_result[of e 0 oid "items p" "delete_items oid s1"] obtain s3 where
    res: "insert_items e 0 oid (items p) (delete_items oid s1) = Inl s3
        \<or> insert_items e 0 oid (items p) (delete_items oid s1) = Inr s3"
    and ord: "orders s3 = orders (delete_items oid s1)"
    and i3: "i_orderId ` set (order_items s3)
        \<subseteq> insert oid (i_orderId ` set (order_items (delete_items oid s1)))"
    by blast
  have del: "i_orderId ` set (order_items (delete_items oid s1))
      \<subseteq> i_orderId ` set (order_items s)"
    by (auto simp: delete_items_def items1)
  have "orders s3 = orders s1"
    using ord by (simp add: delete_items_def)
  then have o3: "o_id ` set (orders s3) = o_id ` set (orders s)"
    using ids1 by simp
  have "oid \<in> o_id ` set (orders s)"
    using Update_order by (rule known)
  then have inv3: "referential_integrity s3"
    using inv i3 del unfolding referential_integrity_iff o3 by blast
  have "snd (update_order e oid p s) = s \<or> snd (update_order e oid p s) = s1
      \<or> snd (update_order e oid p s) = s3"
    using res by (auto simp: update_order_def upd split: option.splits)
  then show ?thesis
    using inv inv1 inv3 Update_order by auto
next
  case (Delete_order oid)
  define s1 where "s1 = delete_items oid s"
  define s2 where "s2 = snd (delete_order_row oid s1)"
  have items1: "i_orderId ` set (order_items s1) \<subseteq> i_orderId ` set (order_items s) - {oid}"
    and orders1: "orders s1 = orders s"
    by (auto simp: s1_def delete_items_def)
  have inv1: "referential_integrity s1"
    using inv items1 unfolding referential_integrity_iff orders1 by blast
  have i2: "order_items s2 = order_items s1"
    and o2: "o_id ` set (orders s2) = o_id ` set (orders s) - {oid}"
    by (auto simp: s2_def delete_order_row_def orders1)
  have inv2: "referential_integrity s2"
    using inv items1 unfolding referential_integrity_iff i2 o2 by blast
  have "snd (delete_order e oid s) = s \<or> snd (delete_order e oid s) = s1
      \<or> snd (delete_order e oid s) = s2"
    by (simp add: delete_order_def Let_def s1_def s2_def split: option.splits prod.splits)
  then show ?thesis
    using inv inv1 inv2 Delete_order by auto
qed

text \<open>
  Claim C1. On the empty store, PUT /api/orders/1 with one item answers 200 with
  \<open>changes\<close> 0 and leaves an item row whose \<open>orderId\<close> is 1 while no order row
  exists: the store before satisfies the invariant, the store after does not.
\<close>

theorem update_unknown_id_orphans_items:
  "referential_integrity empty_store
   \<and> handle (calm 100) (Update_order 1 alice_order) empty_store
       = (Some (200, Message_changes ''success'' 0),
          \<lparr>orders = [],
            order_items = [\<lparr>i_id = 1, i_orderId = 1, i_itemName = ''Mug'', i_unitPrice = 10,
                             i_quantity = 2, i_carbonSaved = 3 / 2\<rparr>],
            orders_seq = 0, order_items_seq = 1\<rparr>)
   \<and> \<not> referential_integrity (snd (handle (calm 100) (Update_order 1 alice_order) empty_store))"
  by (simp add: referential_integrity_def update_order_def calm_stmt_error calm_rejected
      update_order_row_def delete_items_def insert_item_def next_rowid_def empty_store_def
      alice_order_def mug_def Let_def)

subsection \<open>Orders without items\<close>

text \<open>
  For an order row without item rows, in any store, the \<open>items\<close> array the SELECT
  builds has the one element of the NULL row.
\<close>

lemma order_without_items_placeholder:
  assumes "filter (\<lambda>i. i_orderId i = o_id r) (order_items s) = []"
  shows "r_items (order_with_items e s r)
    = [\<lparr>j_id = None, j_itemName = None, j_unitPrice = None, j_quantity = None,
        j_carbonSaved = None\<rparr>]"
  using assms by (simp add: order_with_items_def left_join_def json_object_def)

text \<open>
  Claim C2. An order created with an empty \<open>items\<close> array has no item row, and
  both GET handlers return it with an \<open>items\<close> array of one element whose members
  are all \<open>null\<close>, the NULL row of the LEFT JOIN, not with the empty array.
\<close>

theorem order_without_items_read_back:
  "order_items (snd (create_order (calm 100) empty_order empty_store)) = []
   \<and> fst (read_order (calm 200) 1 (snd (create_order (calm 100) empty_order empty_store)))
       = Some (200, Message_data ''success'' (Order_row (Some
            \<lparr>r_id = 1, r_customerName = ''Bob'', r_totalPrice = 0, r_totalCarbonSaved = 0,
              r_timestamp = 100,
              r_items = [\<lparr>j_id = None, j_itemName = None, j_unitPrice = None,
                           j_quantity = None, j_carbonSaved = None\<rparr>]\<rparr>)))
   \<and> fst (list_orders (calm 200) (snd (create_order (calm 100) empty_order empty_store)))
       = Some (200, Message_data ''success'' (Order_list
            [\<lparr>r_id = 1, r_customerName = ''Bob'', r_totalPrice = 0, r_totalCarbonSaved = 0,
               r_timestamp = 100,
               r_items = [\<lparr>j_id = None, j_itemName = None, j_unitPrice = None,
                            j_quantity = None, j_carbonSaved = None\<rparr>]\<rparr>]))"
  unfolding bob_created fst_conv snd_conv
  by (simp add: read_order_def list_orders_def calm_stmt_error select_order_def
      select_orders_def order_with_items_def left_join_def json_object_def Let_def)

text \<open>
  With at least one item, on a store that satisfies the invariant and with no failure of
  the storage layer, creating an order and reading the returned id back yields the
  supplied scalar fields and, item by item, the supplied name and quantity; the two
  \<open>REAL\<close> fields of an item come back as \<open>json_object\<close> prints them, which is the
  supplied number only when 15 significant digits hold it.
\<close>

lemma create_read_round_trip:
  assumes inv: "referential_integrity s"
    and ok: "stmt_error e 0 = None" "stmt_error e 1 = None"
      "\<forall>j<length (items p). \<not> rejected e j"
    and some: "items p \<noteq> []"
    and ok': "stmt_error e' 0 = None"
  shows "\<exists>new_id row.
      fst (create_order e p s)
        = Some (200, Message_data ''success'' (Order_created new_id p (js_now e)))
    \<and> fst (read_order e' new_id (snd (create_order e p s)))
        = Some (200, Message_data ''success'' (Order_row (Some row)))
    \<and> r_id row = new_id \<and> r_customerName row = customerName p
    \<and> r_totalPrice row = totalPrice p \<and> r_totalCarbonSaved row = totalCarbonSaved p
    \<and> length (r_items row) = length (items p)
    \<and> map j_itemName (r_items row) = map (\<lambda>i. Some (itemName i)) (items p)
    \<and> map j_unitPrice (r_items row) = map (\<lambda>i. Some (json_real e' (unitPrice i))) (items p)
    \<and> map j_quantity (r_items row) = map (\<lambda>i. Some (quantity i)) (items p)
    \<and> map j_carbonSaved (r_items row)
        = map (\<lambda>i. Some (json_real e' (carbonSaved i))) (items p)"
proof -
  define new_id where "new_id = next_rowid (orders_seq s) (map o_id (orders s))"
  define row where "row = \<lparr>o_id = new_id, o_customerName = customerName p,
    o_totalPrice = totalPrice p, o_totalCarbonSaved = totalCarbonSaved p,
    o_timestamp = db_now e\<rparr>"
  define s1 where "s1 = s\<lparr>orders := orders s @ [row], orders_seq := new_id\<rparr>"
  have ins: "insert_order (customerName p) (totalPrice p) (totalCarbonSaved p) (db_now e) s
      = (new_id, s1)"
    by (simp add: insert_order_def Let_def s1_def row_def new_id_def)
  have "\<forall>j<length (items p). \<not> rejected e (0 + j)"
    using ok(3) by simp
  from insert_items_accepted[OF this, of new_id s1] obtain s2 new where
    items: "insert_items e 0 new_id (items p) s1 = Inr s2"
    and orders2': "orders s2 = orders s1"
    and items2': "order_items s2 = order_items s1 @ new"
    and owner: "map i_orderId new = replicate (length (items p)) new_id"
    and fields: "map supplied_fields new = items p"
    by blast
  have created: "create_order e p s
      = (Some (200, Message_data ''success'' (Order_created new_id p (js_now e))), s2)"
    using ok(1,2) by (simp add: create_order_def ins items)
  have orders2: "orders s2 = orders s @ [row]"
    using orders2' by (simp add: s1_def)
  have items2: "order_items s2 = order_items s @ new"
    using items2' by (simp add: s1_def)
  have fresh: "x \<in> o_id ` set (orders s) \<Longrightarrow> x \<noteq> new_id" for x
    using next_rowid_fresh[of x "map o_id (orders s)" "orders_seq s"] by (auto simp: new_id_def)
  have "filter (\<lambda>r. o_id r = new_id) (orders s) = []"
    using fresh by (auto simp: filter_empty_conv)
  then have found: "filter (\<lambda>r. o_id r = new_id) (orders s2) = [row]"
    by (simp add: orders2 row_def)
  have "i_orderId ` set (order_items s) \<subseteq> o_id ` set (orders s)"
    using inv by (simp add: referential_integrity_iff)
  then have "\<forall>i\<in>set (order_items s). i_orderId i \<noteq> new_id"
    using fresh by blast
  then have old: "filter (\<lambda>i. i_orderId i = new_id) (order_items s) = []"
    by (simp add: filter_empty_conv)
  have "\<forall>i\<in>set new. i_orderId i = new_id"
  proof
    fix i
    assume "i \<in> set new"
    then have "i_orderId i \<in> set (map i_orderId new)"
      by simp
    then show "i_orderId i = new_id"
      unfolding owner by simp
  qed
  then have "filter (\<lambda>i. i_orderId i = new_id) new = new"
    by (simp add: filter_id_conv)
  with old have mine: "filter (\<lambda>i. i_orderId i = o_id row) (order_items s2) = new"
    by (simp add: items2 row_def)
  have "length new = length (items p)"
    using arg_cong[OF fields, of length] by simp
  then have "new \<noteq> []"
    using some by auto
  then have joined: "left_join row (order_items s2) = map Some new"
    by (simp add: left_join_def mine)
  define result where "result = order_with_items e' s2 row"
  have items_r: "r_items result = map (json_object e') (map Some new)"
    by (simp add: result_def order_with_items_def joined)
  have "select_order e' new_id s2 = Some result"
    by (simp add: select_order_def found result_def)
  then have read: "fst (read_order e' new_id s2)
      = Some (200, Message_data ''success'' (Order_row (Some result)))"
    using ok' by (simp add: read_order_def)
  have scalars: "r_id result = new_id" "r_customerName result = customerName p"
    "r_totalPrice result = totalPrice p" "r_totalCarbonSaved result = totalCarbonSaved p"
    by (simp_all add: result_def order_with_items_def row_def)
  have len: "length (r_items result) = length (items p)"
    using \<open>length new = length (items p)\<close> by (simp add: items_r)
  have f1: "map j_itemName (r_items result) = map (\<lambda>i. Some (itemName i)) (items p)"
    unfolding items_r fields[symmetric]
    by (simp add: json_object_def supplied_fields_def comp_def)
  have f2: "map j_unitPrice (r_items result)
      = map (\<lambda>i. Some (json_real e' (unitPrice i))) (items p)"
    unfolding items_r fields[symmetric]
    by (simp add: json_object_def supplied_fields_def comp_def)
  have f3: "map j_quantity (r_items result) = map (\<lambda>i. Some (quantity i)) (items p)"
    unfolding items_r fields[symmetric]
    by (simp add: json_object_def supplied_fields_def comp_def)
  have f4: "map j_carbonSaved (r_items result)
      = map (\<lambda>i. Some (json_real e' (carbonSaved i))) (items p)"
    unfolding items_r fields[symmetric]
    by (simp add: json_object_def supplied_fields_def comp_def)
  show ?thesis
    unfolding created fst_conv snd_conv
    using read scalars len f1 f2 f3 f4 by (intro exI[of _ new_id] exI[of _ result] conjI refl)
qed

text \<open>
  Claim C5. Creating an order with no items and reading the returned id back yields an
  order with one item, not with none.
\<close>

theorem create_no_items_reads_one_item:
  "fst (create_order (calm 100) empty_order empty_store)
     = Some (200, Message_data ''success''
               (Order_created 1 empty_order ''2026-01-01T00:00:00.000Z''))
   \<and> length (items empty_order) = 0
   \<and> (\<exists>row. fst (read_order (calm 200) 1 (snd (create_order (calm 100) empty_order empty_store)))
                = Some (200, Message_data ''success'' (Order_row (Some row)))
            \<and> length (r_items row) = 1)"
  unfolding bob_created fst_conv snd_conv
  by (simp add: read_order_def calm_stmt_error select_order_def
      order_with_items_def left_join_def empty_order_def Let_def)

end
